theory Spec2Isabelle
  imports Main
begin

section \<open>Python values\<close>

text \<open>
  The values that flow through \<open>source_hubspot/api.py\<close>: parsed JSON (responses, request
  parameters, credentials) and the one non-JSON value the module stores, a
  \<open>datetime\<close> (the token expiry, here microseconds since the epoch). Python's \<open>None\<close>
  and JSON's \<open>null\<close> are the same value \<open>VNone\<close>. Dictionaries keep their insertion
  order and have string keys. Numbers are the integers: no branch of the module looks at
  a fractional number.
\<close>

datatype val =
    VNone
  | VBool bool
  | VInt int
  | VStr string
  | VList "val list"
  | VDict "(string \<times> val) list"
  | VDatetime int

type_synonym dict = "(string \<times> val) list"

text \<open>Truth value of an object, as \<open>if x\<close> and \<open>not x\<close> take it.\<close>

fun truthy :: "val \<Rightarrow> bool" where
  "truthy VNone = False"
| "truthy (VBool b) = b"
| "truthy (VInt n) = (n \<noteq> 0)"
| "truthy (VStr s) = (s \<noteq> [])"
| "truthy (VList xs) = (xs \<noteq> [])"
| "truthy (VDict kvs) = (kvs \<noteq> [])"
| "truthy (VDatetime t) = True"

text \<open>\<open>d.get(k)\<close>, \<open>d.get(k, default)\<close>, \<open>k in d\<close>, \<open>d.keys()\<close>.\<close>

definition dict_get :: "dict \<Rightarrow> string \<Rightarrow> val" where
  "dict_get d k = (case map_of d k of None \<Rightarrow> VNone | Some v \<Rightarrow> v)"

definition dict_get_default :: "dict \<Rightarrow> string \<Rightarrow> val \<Rightarrow> val" where
  "dict_get_default d k dflt = (case map_of d k of None \<Rightarrow> dflt | Some v \<Rightarrow> v)"

definition dict_has :: "dict \<Rightarrow> string \<Rightarrow> bool" where
  "dict_has d k = (map_of d k \<noteq> None)"

definition dict_keys :: "dict \<Rightarrow> string list" where
  "dict_keys d = map fst d"

text \<open>\<open>d[k] = v\<close>: an existing key keeps its place, a new key goes last.\<close>

fun dict_set :: "'k \<Rightarrow> 'v \<Rightarrow> ('k \<times> 'v) list \<Rightarrow> ('k \<times> 'v) list" where
  "dict_set k v [] = [(k, v)]"
| "dict_set k v ((k', v') # rest) =
     (if k' = k then (k, v) # rest else (k', v') # dict_set k v rest)"

text \<open>\<open>{**a, **b}\<close>: the entries of \<open>b\<close> are stored into a copy of \<open>a\<close>, in order.\<close>

definition dict_merge :: "dict \<Rightarrow> dict \<Rightarrow> dict" where
  "dict_merge a b = fold (\<lambda>(k, v) d. dict_set k v d) b a"

section \<open>Responses, errors, requests and the outside world\<close>

text \<open>
  What the module reads of a \<open>requests.Response\<close>: the status code, the
  \<open>Retry-After\<close> header, the raw content and the result of \<open>response.json()\<close>
  (\<open>None\<close> when the body is not JSON and \<open>json()\<close> raises). The header is kept by what
  \<open>int(...)\<close> makes of it: an integer, or a \<open>ValueError\<close>.
\<close>

datatype retry_after = RA_Int int | RA_Unparseable

record response =
  status_code :: int
  retry_after_header :: "retry_after option"
  content :: string
  json_body :: "val option"

text \<open>
  The \<open>RuntimeError\<close> of \<open>read\<close> carries the text
  \<open>"Unexpected API response: {} not in {}".format(data_path, response.keys())\<close>; it is
  kept as its two format arguments.
\<close>

datatype message = Unexpected_API_response string "string list"

text \<open>
  Modelled from the spec: the exception classes \<open>HubspotInvalidAuth\<close>,
  \<open>HubspotSourceUnavailable\<close> and \<open>HubspotRateLimited\<close> of
  \<open>source_hubspot.errors\<close>, which \<open>api.py\<close> imports and does not define: three
  classes of their own, of which the rate-limit error alone carries the response that the
  retry handler reads. The others are the exceptions of Python and of \<open>requests\<close> that
  the module can raise.
\<close>

datatype error =
    HubspotInvalidAuth string
  | HubspotSourceUnavailable string
  | HubspotRateLimited response
  | HTTPError int
  | JSONDecodeError
  | KeyError string
  | TypeError
  | ValueError
  | AttributeError
  | RuntimeError message

datatype meth = GET | POST

datatype body = NoBody | JsonBody val | FormBody dict

text \<open>
  An HTTP request as the module builds it: \<open>req_bearer\<close> is the session's
  \<open>Authorization\<close> header \<open>f"Bearer {token}"\<close> (\<open>None\<close> when the header is not set;
  the token endpoint is called outside the session and never carries it).
\<close>

record request =
  req_meth :: meth
  req_url :: string
  req_params :: dict
  req_bearer :: "val option"
  req_body :: body

datatype logline =
    Rate_limit_sleeping int
  | Max_retry_limit_reached
  | Token_refreshed int
  | Reading_chunk int int

datatype event = Http request | Sleep int | Log logline

text \<open>
  The outside world, over any state \<open>'s\<close>: the remote API answers a request and moves
  on, the two clocks are read (\<open>datetime.utcnow()\<close> in microseconds,
  \<open>int(pendulum.now().timestamp() * 1000)\<close> in milliseconds), and \<open>time.sleep\<close> lets
  time pass. Every request gets a response.
\<close>

record 's env =
  http :: "request \<Rightarrow> 's \<Rightarrow> response \<times> 's"
  utcnow :: "'s \<Rightarrow> int"
  now_ms :: "'s \<Rightarrow> int"
  sleep :: "int \<Rightarrow> 's \<Rightarrow> 's"

text \<open>
  The \<open>API\<close> object (\<open>_credentials\<close>, the \<open>Authorization\<close> header of \<open>_session\<close>)
  together with the state of the world and the trace of what the module did to it.
\<close>

record 's state =
  credentials :: dict
  authorization :: "val option"
  ext :: 's
  trace :: "event list"

definition do_http :: "'s env \<Rightarrow> request \<Rightarrow> 's state \<Rightarrow> response \<times> 's state" where
  "do_http env req st =
     (case http env req (ext st) of
        (resp, s') \<Rightarrow> (resp, st\<lparr>ext := s', trace := trace st @ [Http req]\<rparr>))"

definition do_log :: "logline \<Rightarrow> 's state \<Rightarrow> 's state" where
  "do_log l st = st\<lparr>trace := trace st @ [Log l]\<rparr>"

text \<open>\<open>time.sleep(n)\<close> raises \<open>ValueError\<close> on a negative length.\<close>

definition time_sleep :: "'s env \<Rightarrow> int \<Rightarrow> 's state \<Rightarrow> (error + unit) \<times> 's state" where
  "time_sleep env n st =
     (if n < 0 then (Inl ValueError, st)
      else (Inr (), st\<lparr>ext := sleep env n (ext st), trace := trace st @ [Sleep n]\<rparr>))"

text \<open>\<open>x[k]\<close> for a string key \<open>k\<close>, on a dictionary and on any other value.\<close>

definition dict_item :: "dict \<Rightarrow> string \<Rightarrow> error + val" where
  "dict_item d k = (case map_of d k of None \<Rightarrow> Inl (KeyError k) | Some v \<Rightarrow> Inr v)"

fun py_getitem :: "val \<Rightarrow> string \<Rightarrow> error + val" where
  "py_getitem (VDict kvs) k = dict_item kvs k"
| "py_getitem v k = Inl TypeError"

text \<open>\<open>for row in x\<close>: the elements of a list, the keys of a dictionary, the characters
  of a string; anything else is not iterable.\<close>

fun py_iter :: "val \<Rightarrow> error + val list" where
  "py_iter (VList xs) = Inr xs"
| "py_iter (VDict kvs) = Inr (map (\<lambda>kv. VStr (fst kv)) kvs)"
| "py_iter (VStr s) = Inr (map (\<lambda>c. VStr [c]) s)"
| "py_iter v = Inl TypeError"

fun contains_str :: "string \<Rightarrow> string \<Rightarrow> bool" where
  "contains_str sub [] = (sub = [])"
| "contains_str sub (c # cs) = (take (length sub) (c # cs) = sub \<or> contains_str sub cs)"

text \<open>\<open>k in x\<close> for a string \<open>k\<close>: a key of a dictionary, an element of a list, a
  substring of a string.\<close>

fun py_contains :: "val \<Rightarrow> string \<Rightarrow> error + bool" where
  "py_contains (VDict kvs) k = Inr (dict_has kvs k)"
| "py_contains (VList xs) k = Inr (VStr k \<in> set xs)"
| "py_contains (VStr s) k = Inr (contains_str k s)"
| "py_contains v k = Inl TypeError"

section \<open>class API\<close>

definition BASE_URL :: string where
  "BASE_URL = ''https://api.hubapi.com''"

text \<open>A number for \<open>auth["expires_in"] - 600\<close>; a \<open>bool\<close> is an \<open>int\<close> in Python.\<close>

fun as_number :: "val \<Rightarrow> error + int" where
  "as_number (VInt n) = Inr n"
| "as_number (VBool b) = Inr (if b then 1 else 0)"
| "as_number v = Inl TypeError"

text \<open>
  \<open>API._acquire_access_token_from_refresh_token\<close>. The payload is built key by key (a
  missing credential is a \<open>KeyError\<close>), posted to the token endpoint; 403 is
  \<open>HubspotInvalidAuth\<close>, \<open>raise_for_status\<close> raises on 400 to 599, and the three
  credentials are stored one after the other, so an error in between leaves the earlier
  ones stored.
\<close>

definition token_request :: "dict \<Rightarrow> request" where
  "token_request payload =
     \<lparr>req_meth = POST, req_url = BASE_URL @ ''/oauth/v1/token'', req_params = [],
      req_bearer = None, req_body = FormBody payload\<rparr>"

definition store_auth :: "'s env \<Rightarrow> val \<Rightarrow> 's state \<Rightarrow> (error + unit) \<times> 's state" where
  "store_auth env auth st1 =
     (case py_getitem auth ''access_token'' of
        Inl e \<Rightarrow> (Inl e, st1)
      | Inr at \<Rightarrow>
          (let st2 = st1\<lparr>credentials := dict_set ''access_token'' at (credentials st1)\<rparr> in
           case py_getitem auth ''refresh_token'' of
             Inl e \<Rightarrow> (Inl e, st2)
           | Inr rt \<Rightarrow>
               (let st3 = st2\<lparr>credentials := dict_set ''refresh_token'' rt (credentials st2)\<rparr>;
                    now = utcnow env (ext st3)
                in case py_getitem auth ''expires_in'' of
                     Inl e \<Rightarrow> (Inl e, st3)
                   | Inr ei \<Rightarrow>
                       (case as_number ei of
                          Inl e \<Rightarrow> (Inl e, st3)
                        | Inr n \<Rightarrow>
                            (let expires = now + (n - 600) * 1000000;
                                 st4 = st3\<lparr>credentials :=
                                   dict_set ''token_expires'' (VDatetime expires) (credentials st3)\<rparr>
                             in (Inr (), do_log (Token_refreshed expires) st4))))))"

definition refresh_payload :: "dict \<Rightarrow> error + dict" where
  "refresh_payload creds =
     (case dict_item creds ''redirect_uri'' of
        Inl e \<Rightarrow> Inl e
      | Inr redirect_uri \<Rightarrow>
     (case dict_item creds ''refresh_token'' of
        Inl e \<Rightarrow> Inl e
      | Inr refresh_token \<Rightarrow>
     (case dict_item creds ''client_id'' of
        Inl e \<Rightarrow> Inl e
      | Inr client_id \<Rightarrow>
     (case dict_item creds ''client_secret'' of
        Inl e \<Rightarrow> Inl e
      | Inr client_secret \<Rightarrow>
          Inr [(''grant_type'', VStr ''refresh_token''),
               (''redirect_uri'', redirect_uri),
               (''refresh_token'', refresh_token),
               (''client_id'', client_id),
               (''client_secret'', client_secret)]))))"

definition acquire_access_token_from_refresh_token ::
  "'s env \<Rightarrow> 's state \<Rightarrow> (error + unit) \<times> 's state" where
  "acquire_access_token_from_refresh_token env st =
     (case refresh_payload (credentials st) of
        Inl e \<Rightarrow> (Inl e, st)
      | Inr payload \<Rightarrow>
          (case do_http env (token_request payload) st of
             (resp, st1) \<Rightarrow>
               if status_code resp = 403 then (Inl (HubspotInvalidAuth (content resp)), st1)
               else if 400 \<le> status_code resp \<and> status_code resp < 600
                 then (Inl (HTTPError (status_code resp)), st1)
               else (case json_body resp of
                       None \<Rightarrow> (Inl JSONDecodeError, st1)
                     | Some auth \<Rightarrow> store_auth env auth st1)))"

text \<open>\<open>API.api_key\<close>.\<close>

definition api_key :: "'s state \<Rightarrow> val" where
  "api_key st = dict_get (credentials st) ''api_key''"

text \<open>
  The test \<open>token_expires is None or token_expires < datetime.utcnow()\<close>; comparing
  anything but a \<open>datetime\<close> with a \<open>datetime\<close> is a \<open>TypeError\<close>.
\<close>

fun token_expired :: "val \<Rightarrow> int \<Rightarrow> error + bool" where
  "token_expired VNone now = Inr True"
| "token_expired (VDatetime t) now = Inr (t < now)"
| "token_expired v now = Inl TypeError"

text \<open>\<open>API.access_token\<close>: "Get Access Token if set, refreshes token if needed".\<close>

definition access_token :: "'s env \<Rightarrow> 's state \<Rightarrow> (error + val) \<times> 's state" where
  "access_token env st =
     (if \<not> truthy (dict_get (credentials st) ''access_token'') then (Inr VNone, st)
      else (case dict_item (credentials st) ''token_expires'' of
              Inl e \<Rightarrow> (Inl e, st)
            | Inr te \<Rightarrow>
                (case token_expired te (utcnow env (ext st)) of
                   Inl e \<Rightarrow> (Inl e, st)
                 | Inr True \<Rightarrow>
                     (case acquire_access_token_from_refresh_token env st of
                        (Inl e, st1) \<Rightarrow> (Inl e, st1)
                      | (Inr u, st1) \<Rightarrow> (Inr (dict_get (credentials st1) ''access_token''), st1))
                 | Inr False \<Rightarrow> (Inr (dict_get (credentials st) ''access_token''), st))))"

text \<open>
  \<open>API._add_auth\<close>: the parameters to send. With an API key they get \<open>hapikey\<close>,
  otherwise the session's \<open>Authorization\<close> header is set to the bearer token.
\<close>

definition add_auth :: "'s env \<Rightarrow> dict \<Rightarrow> 's state \<Rightarrow> (error + dict) \<times> 's state" where
  "add_auth env params st =
     (if truthy (api_key st) then (Inr (dict_set ''hapikey'' (api_key st) params), st)
      else (case access_token env st of
              (Inl e, st1) \<Rightarrow> (Inl e, st1)
            | (Inr tok, st1) \<Rightarrow> (Inr params, st1\<lparr>authorization := Some tok\<rparr>)))"

text \<open>\<open>API._parse_and_handle_errors\<close>.\<close>

definition parse_and_handle_errors :: "response \<Rightarrow> error + val" where
  "parse_and_handle_errors resp =
     (if status_code resp = 403 then Inl (HubspotSourceUnavailable (content resp))
      else if status_code resp = 429 then Inl (HubspotRateLimited resp)
      else if 400 \<le> status_code resp \<and> status_code resp < 600
        then Inl (HTTPError (status_code resp))
      else (case json_body resp of None \<Rightarrow> Inl JSONDecodeError | Some v \<Rightarrow> Inr v))"

text \<open>
  A call that takes the caller's parameter dictionary returns, with its result, the
  dictionary as the call left it: \<open>params or {}\<close> in \<open>_add_auth\<close> is the caller's own
  object unless that is empty (or \<open>None\<close>, modelled as the empty dictionary), so
  \<open>hapikey\<close> is stored into it.
\<close>

type_synonym 's call = "dict \<Rightarrow> 's state \<Rightarrow> (error + val) \<times> dict \<times> 's state"

definition get_request :: "string \<Rightarrow> dict \<Rightarrow> 's state \<Rightarrow> request" where
  "get_request url p st =
     \<lparr>req_meth = GET, req_url = BASE_URL @ url, req_params = p,
      req_bearer = authorization st, req_body = NoBody\<rparr>"

text \<open>The body of \<open>API.get\<close>, one attempt.\<close>

definition get_once :: "'s env \<Rightarrow> string \<Rightarrow> 's call" where
  "get_once env url params st =
     (case add_auth env params st of
        (Inl e, st1) \<Rightarrow> (Inl e, params, st1)
      | (Inr p, st1) \<Rightarrow>
          (case do_http env (get_request url p st1) st1 of
             (resp, st2) \<Rightarrow>
               (parse_and_handle_errors resp, (if params = [] then params else p), st2)))"

definition post_request :: "string \<Rightarrow> val \<Rightarrow> dict \<Rightarrow> 's state \<Rightarrow> request" where
  "post_request url data p st =
     \<lparr>req_meth = POST, req_url = BASE_URL @ url, req_params = p,
      req_bearer = authorization st, req_body = JsonBody data\<rparr>"

text \<open>\<open>API.post\<close>: not decorated.\<close>

definition post :: "'s env \<Rightarrow> string \<Rightarrow> val \<Rightarrow> 's call" where
  "post env url data params st =
     (case add_auth env params st of
        (Inl e, st1) \<Rightarrow> (Inl e, params, st1)
      | (Inr p, st1) \<Rightarrow>
          (case do_http env (post_request url data p st1) st1 of
             (resp, st2) \<Rightarrow>
               (parse_and_handle_errors resp, (if params = [] then params else p), st2)))"

section \<open>retry_after_handler\<close>

text \<open>
  \<open>sleep_on_ratelimit\<close>, the \<open>on_backoff\<close> handler: the exception being handled is
  the \<open>HubspotRateLimited\<close> that \<open>backoff\<close> caught; \<open>headers["Retry-After"]\<close> is a
  \<open>KeyError\<close> when the header is missing and \<open>int(...)\<close> a \<open>ValueError\<close> when it is no
  integer.
\<close>

definition sleep_on_ratelimit :: "'s env \<Rightarrow> error \<Rightarrow> 's state \<Rightarrow> (error + unit) \<times> 's state" where
  "sleep_on_ratelimit env exc st =
     (case exc of
        HubspotRateLimited resp \<Rightarrow>
          (case retry_after_header resp of
             None \<Rightarrow> (Inl (KeyError ''Retry-After''), st)
           | Some RA_Unparseable \<Rightarrow> (Inl ValueError, st)
           | Some (RA_Int retry_after) \<Rightarrow>
               time_sleep env (retry_after + 1) (do_log (Rate_limit_sleeping retry_after) st))
      | _ \<Rightarrow> (Inr (), st))"

definition log_giveup :: "'s state \<Rightarrow> 's state" where
  "log_giveup st = do_log Max_retry_limit_reached st"

text \<open>
  Modelled from the spec: \<open>backoff.on_exception(backoff.constant, HubspotRateLimited,
  jitter=None, on_backoff=..., on_giveup=..., interval=0, max_tries=...)\<close>, the retry
  loop of the third-party \<open>backoff\<close> package, which is not part of the repository. It
  calls the target; an exception that is no \<open>HubspotRateLimited\<close> propagates at once;
  on \<open>HubspotRateLimited\<close> it gives up when the tries are used up (\<open>on_giveup\<close>, then
  the exception is raised again), and otherwise calls \<open>on_backoff\<close>, sleeps for the
  constant interval 0 and calls the target again with the same arguments. The first
  argument counts the tries left after the current one.
\<close>

fun on_exception :: "'s env \<Rightarrow> nat \<Rightarrow> 's call \<Rightarrow> 's call" where
  "on_exception env 0 target params st =
     (case target params st of
        (Inr v, p1, st1) \<Rightarrow> (Inr v, p1, st1)
      | (Inl (HubspotRateLimited resp), p1, st1) \<Rightarrow>
          (Inl (HubspotRateLimited resp), p1, log_giveup st1)
      | (Inl e, p1, st1) \<Rightarrow> (Inl e, p1, st1))"
| "on_exception env (Suc n) target params st =
     (case target params st of
        (Inr v, p1, st1) \<Rightarrow> (Inr v, p1, st1)
      | (Inl (HubspotRateLimited resp), p1, st1) \<Rightarrow>
          (case sleep_on_ratelimit env (HubspotRateLimited resp) st1 of
             (Inl e', st2) \<Rightarrow> (Inl e', p1, st2)
           | (Inr u, st2) \<Rightarrow>
               (case time_sleep env 0 st2 of
                  (Inl e', st3) \<Rightarrow> (Inl e', p1, st3)
                | (Inr u', st3) \<Rightarrow> on_exception env n target p1 st3))
      | (Inl e, p1, st1) \<Rightarrow> (Inl e, p1, st1))"

definition retry_after_handler :: "'s env \<Rightarrow> nat \<Rightarrow> 's call \<Rightarrow> 's call" where
  "retry_after_handler env max_tries target = on_exception env (max_tries - 1) target"

text \<open>\<open>API.get\<close>, decorated with \<open>@retry_after_handler(max_tries=3)\<close>.\<close>

definition get :: "'s env \<Rightarrow> string \<Rightarrow> 's call" where
  "get env url = retry_after_handler env 3 (get_once env url)"

section \<open>class StreamAPI\<close>

text \<open>
  The class attributes of a stream (\<open>entity\<close>, \<open>more_key\<close>, \<open>data_path\<close>,
  \<open>page_filter\<close>, \<open>page_field\<close>, \<open>chunk_size\<close>, \<open>limit\<close>) and its
  \<open>_start_date\<close>, as \<open>int(self._start_date.timestamp() * 1000)\<close>.
\<close>

record stream =
  entity :: "string option"
  more_key :: "string option"
  data_path :: string
  page_filter :: string
  page_field :: string
  chunk_size :: int
  limit :: int
  start_ts :: int

text \<open>How a generator ends: it is exhausted, or an exception leaves it.\<close>

datatype outcome = Exhausted | Raised error

text \<open>
  The loop of \<open>StreamAPI.properties\<close>: \<open>props[row["name"]] = {"type": row["type"]}\<close>
  evaluates the right side first and needs a hashable key.
\<close>

fun hashable :: "val \<Rightarrow> bool" where
  "hashable (VList xs) = False"
| "hashable (VDict kvs) = False"
| "hashable v = True"

fun props_loop :: "val list \<Rightarrow> (val \<times> val) list \<Rightarrow> error + (val \<times> val) list" where
  "props_loop [] props = Inr props"
| "props_loop (row # rows) props =
     (case py_getitem row ''type'' of
        Inl e \<Rightarrow> Inl e
      | Inr ty \<Rightarrow>
          (case py_getitem row ''name'' of
             Inl e \<Rightarrow> Inl e
           | Inr name \<Rightarrow>
               if hashable name then props_loop rows (dict_set name (VDict [(''type'', ty)]) props)
               else Inl TypeError))"

text \<open>\<open>StreamAPI.properties\<close>: no request without an entity, one \<open>GET\<close> with one.\<close>

definition properties :: "'s env \<Rightarrow> stream \<Rightarrow> 's state \<Rightarrow> (error + (val \<times> val) list) \<times> 's state" where
  "properties env cfg st =
     (case entity cfg of
        None \<Rightarrow> (Inr [], st)
      | Some ent \<Rightarrow>
          if ent = [] then (Inr [], st)
          else (case get env (''/properties/v2/'' @ ent @ ''/properties'') [] st of
                  (Inl e, p, st1) \<Rightarrow> (Inl e, st1)
                | (Inr data, p, st1) \<Rightarrow>
                    (case py_iter data of
                       Inl e \<Rightarrow> (Inl e, st1)
                     | Inr rows \<Rightarrow> (props_loop rows [], st1))))"

text \<open>\<open>",".join(keys)\<close>: every item must be a string.\<close>

fun join_keys :: "val list \<Rightarrow> error + string" where
  "join_keys [] = Inr []"
| "join_keys [VStr s] = Inr s"
| "join_keys (VStr s # k # ks) =
     (case join_keys (k # ks) of Inl e \<Rightarrow> Inl e | Inr t \<Rightarrow> Inr (s @ '','' @ t))"
| "join_keys (v # ks) = Inl TypeError"

text \<open>
  The block under \<open># pagination\<close> in \<open>StreamAPI.read\<close>: \<open>Inr None\<close> is \<open>break\<close>,
  \<open>Inr (Some p)\<close> the parameters of the next turn of the loop.
\<close>

definition more_flag :: "stream \<Rightarrow> dict \<Rightarrow> val" where
  "more_flag cfg response =
     (case more_key cfg of
        None \<Rightarrow> VBool False
      | Some k \<Rightarrow> dict_get_default response k (VBool False))"

definition pagination :: "stream \<Rightarrow> dict \<Rightarrow> dict \<Rightarrow> error + dict option" where
  "pagination cfg response params =
     (if dict_has response ''paging'' then
        (case py_contains (dict_get response ''paging'') ''next'' of
           Inl e \<Rightarrow> Inl e
         | Inr True \<Rightarrow>
             (case py_getitem (dict_get response ''paging'') ''next'' of
                Inl e \<Rightarrow> Inl e
              | Inr nxt \<Rightarrow>
                  (case py_getitem nxt ''after'' of
                     Inl e \<Rightarrow> Inl e
                   | Inr after \<Rightarrow> Inr (Some (dict_set ''after'' after params))))
         | Inr False \<Rightarrow> Inr None)
      else if \<not> truthy (more_flag cfg response) then Inr None
      else if dict_has response (page_field cfg)
        then Inr (Some (dict_set (page_filter cfg) (dict_get response (page_field cfg)) params))
      else Inr (Some params))"

text \<open>
  The \<open>while True\<close> loop of \<open>StreamAPI.read\<close>, with the rows yielded so far. The loop
  may run for ever: \<open>None\<close> is "does not return". A response that is no dictionary has
  no \<open>get\<close>.
\<close>

partial_function (option) read_loop ::
  "stream \<Rightarrow> 's call \<Rightarrow> dict \<Rightarrow> 's state \<Rightarrow> val list \<Rightarrow> ((val list \<times> outcome) \<times> 's state) option" where
  "read_loop cfg getter params st acc =
     (case getter params st of
        (Inl e, params1, st1) \<Rightarrow> Some ((acc, Raised e), st1)
      | (Inr (VDict response), params1, st1) \<Rightarrow>
          if dict_get response (data_path cfg) = VNone
          then Some ((acc, Raised (RuntimeError
                 (Unexpected_API_response (data_path cfg) (dict_keys response)))), st1)
          else (case py_iter (dict_get response (data_path cfg)) of
                  Inl e \<Rightarrow> Some ((acc, Raised e), st1)
                | Inr rows \<Rightarrow>
                    (case pagination cfg response params1 of
                       Inl e \<Rightarrow> Some ((acc @ rows, Raised e), st1)
                     | Inr None \<Rightarrow> Some ((acc @ rows, Exhausted), st1)
                     | Inr (Some params2) \<Rightarrow> read_loop cfg getter params2 st1 (acc @ rows)))
      | (Inr v, params1, st1) \<Rightarrow> Some ((acc, Raised AttributeError), st1))"

declare read_loop.simps [code]

text \<open>
  \<open>StreamAPI.read\<close>, consumed to its end: the rows yielded, how the generator ended
  and the state it left. \<open>params\<close> is \<open>[]\<close> for \<open>None\<close>.
\<close>

definition read ::
  "'s env \<Rightarrow> stream \<Rightarrow> 's call \<Rightarrow> dict \<Rightarrow> 's state \<Rightarrow> ((val list \<times> outcome) \<times> 's state) option" where
  "read env cfg getter params st =
     (case properties env cfg st of
        (Inl e, st1) \<Rightarrow> Some (([], Raised e), st1)
      | (Inr props, st1) \<Rightarrow>
          (case join_keys (map fst props) of
             Inl e \<Rightarrow> Some (([], Raised e), st1)
           | Inr joined \<Rightarrow>
               (let default_params = [(''limit'', VInt (limit cfg)), (''properties'', VStr joined)];
                    params0 = (if params \<noteq> [] then dict_merge default_params params
                               else default_params)
                in read_loop cfg getter params0 st1 [])))"






section \<open>The streams\<close>

text \<open>The class attributes of \<open>StreamAPI\<close>, which the subclasses override.\<close>

definition StreamAPI :: "int \<Rightarrow> stream" where
  "StreamAPI start =
     \<lparr>entity = None, more_key = None, data_path = ''results'', page_filter = ''offset'',
      page_field = ''offset'', chunk_size = 1000 * 60 * 60 * 24, limit = 100, start_ts = start\<rparr>"

definition ContactsAPI :: "int \<Rightarrow> stream" where
  "ContactsAPI start = (StreamAPI start)\<lparr>entity := Some ''contact''\<rparr>"

definition ContactListsAPI :: "int \<Rightarrow> stream" where
  "ContactListsAPI start = StreamAPI start"

definition EmailEventsAPI :: "int \<Rightarrow> stream" where
  "EmailEventsAPI start =
     (StreamAPI start)\<lparr>data_path := ''events'', more_key := Some ''hasMore'', limit := 1000\<rparr>"

definition EngagementsAPI :: "int \<Rightarrow> stream" where
  "EngagementsAPI start =
     (StreamAPI start)\<lparr>entity := Some ''engagement'', more_key := Some ''hasMore'', limit := 250\<rparr>"

section \<open>Worlds to run the module in\<close>

text \<open>The requests of a trace, in order.\<close>

fun http_requests :: "event list \<Rightarrow> request list" where
  "http_requests [] = []"
| "http_requests (Http req # evs) = req # http_requests evs"
| "http_requests (ev # evs) = http_requests evs"


text \<open>What a finished run yielded, and the requests it sent: their URLs, their windows.\<close>

definition run_urls ::
  "((val list \<times> outcome) \<times> 's state) option \<Rightarrow> ((val list \<times> outcome) \<times> string list) option" where
  "run_urls = map_option (\<lambda>r. (fst r, map req_url (http_requests (trace (snd r)))))"


text \<open>
  The state in which \<open>backoff\<close> calls the target again after a \<open>HubspotRateLimited\<close>
  with \<open>Retry-After\<close> \<open>n\<close>: \<open>sleep_on_ratelimit\<close> has logged and slept \<open>n + 1\<close>
  seconds, \<open>backoff\<close> has slept its interval of 0 seconds.
\<close>

definition after_backoff :: "'s env \<Rightarrow> int \<Rightarrow> 's state \<Rightarrow> 's state" where
  "after_backoff env n st =
     st\<lparr>ext := sleep env 0 (sleep env (n + 1) (ext st)),
        trace := trace st @ [Log (Rate_limit_sleeping n), Sleep (n + 1), Sleep 0]\<rparr>"

definition json_response :: "val \<Rightarrow> response" where
  "json_response v =
     \<lparr>status_code = 200, retry_after_header = None, content = [], json_body = Some v\<rparr>"

definition error_response :: "int \<Rightarrow> retry_after option \<Rightarrow> response" where
  "error_response code ra =
     \<lparr>status_code = code, retry_after_header = ra, content = [], json_body = None\<rparr>"

text \<open>A server that gives the same answer to every request, at a fixed time.\<close>

definition constant_env :: "int \<Rightarrow> response \<Rightarrow> unit env" where
  "constant_env now resp =
     \<lparr>http = (\<lambda>req s. (resp, s)), utcnow = (\<lambda>s. now * 1000), now_ms = (\<lambda>s. now),
      sleep = (\<lambda>n s. s)\<rparr>"

text \<open>A server that plays a list of responses, one per request, then answers 500.\<close>

definition scripted_env :: "response list env" where
  "scripted_env =
     \<lparr>http = (\<lambda>req s. case s of [] \<Rightarrow> (error_response 500 None, []) | r # rs \<Rightarrow> (r, rs)),
      utcnow = (\<lambda>s. 0), now_ms = (\<lambda>s. 0), sleep = (\<lambda>n s. s)\<rparr>"

definition api_key_state :: "'s \<Rightarrow> 's state" where
  "api_key_state s =
     \<lparr>credentials = [(''api_key'', VStr ''k'')], authorization = None, ext = s, trace = []\<rparr>"


definition last_page :: dict where
  "last_page =
     [(''events'', VList [VStr ''b'']), (''hasMore'', VBool False), (''offset'', VStr ''o'')]"

definition events_request :: request where
  "events_request =
     \<lparr>req_meth = GET, req_url = ''https://api.hubapi.com/email/public/v1/events'',
      req_params = [(''limit'', VInt 1000), (''properties'', VStr []), (''hapikey'', VStr ''k'')],
      req_bearer = None, req_body = NoBody\<rparr>"


text \<open>
  Two pages of the cursor protocol and a server for the contacts: it answers the
  properties endpoint with one property, the request with \<open>after=X\<close> with the second
  page and any other request with the first.
\<close>

definition page_one :: dict where
  "page_one =
     [(''results'', VList [VStr ''a'', VStr ''b'']),
      (''paging'', VDict [(''next'', VDict [(''after'', VStr ''X'')])])]"

definition page_two :: dict where
  "page_two = [(''results'', VList [VStr ''c''])]"

definition contacts_env :: "unit env" where
  "contacts_env =
     \<lparr>http = (\<lambda>req s.
        if req_url req = ''https://api.hubapi.com/properties/v2/contact/properties''
          then (json_response
                  (VList [VDict [(''name'', VStr ''email''), (''type'', VStr ''string'')]]), s)
        else if dict_get (req_params req) ''after'' = VStr ''X''
          then (json_response (VDict page_two), s)
        else (json_response (VDict page_one), s)),
      utcnow = (\<lambda>s. 0), now_ms = (\<lambda>s. 0), sleep = (\<lambda>n s. s)\<rparr>"

definition contacts_url :: string where
  "contacts_url = ''/crm/v3/objects/contacts''"


text \<open>A request for the contacts with a limit, as \<open>get\<close> sends it with the API key.\<close>

definition limit_request :: request where
  "limit_request =
     \<lparr>req_meth = GET, req_url = ''https://api.hubapi.com/crm/v3/objects/contacts'',
      req_params = [(''limit'', VInt 100), (''hapikey'', VStr ''k'')],
      req_bearer = None, req_body = NoBody\<rparr>"

text \<open>The sleeps of a trace, in order.\<close>

fun sleeps :: "event list \<Rightarrow> int list" where
  "sleeps [] = []"
| "sleeps (Sleep n # evs) = n # sleeps evs"
| "sleeps (ev # evs) = sleeps evs"

definition limit_post :: request where
  "limit_post =
     \<lparr>req_meth = POST, req_url = ''https://api.hubapi.com/crm/v3/objects/contacts'',
      req_params = [(''limit'', VInt 100), (''hapikey'', VStr ''k'')],
      req_bearer = None, req_body = JsonBody (VDict [])\<rparr>"




section \<open>Dictionaries and single calls\<close>

lemmas run_defs =
  read_def properties_def get_def retry_after_handler_def get_once_def add_auth_def api_key_def
  dict_get_def dict_get_default_def dict_has_def dict_item_def dict_keys_def dict_merge_def
  do_http_def do_log_def time_sleep_def get_request_def parse_and_handle_errors_def BASE_URL_def
  pagination_def more_flag_def sleep_on_ratelimit_def log_giveup_def numeral_3_eq_3
  StreamAPI_def ContactsAPI_def ContactListsAPI_def EmailEventsAPI_def EngagementsAPI_def
  json_response_def error_response_def constant_env_def scripted_env_def api_key_state_def

lemma dict_set_same: "map_of d k = Some v \<Longrightarrow> dict_set k v d = d"
  by (induction d) (auto split: if_splits)

lemma map_of_dict_set: "map_of (dict_set k v d) k' = (if k' = k then Some v else map_of d k')"
  by (induction d) auto

lemma dict_set_nonempty: "dict_set k v d \<noteq> []"
  by (cases d) (auto split: if_splits)

lemma dict_merge_nonempty: "a \<noteq> [] \<Longrightarrow> dict_merge a b \<noteq> []"
proof (induction b arbitrary: a)
  case Nil
  then show ?case by (simp add: dict_merge_def)
next
  case (Cons kv b)
  obtain k v where kv: "kv = (k, v)" by (cases kv)
  have "dict_merge a (kv # b) = dict_merge (dict_set k v a) b"
    by (simp add: dict_merge_def kv)
  with Cons.IH [of "dict_set k v a"] show ?case by (simp add: dict_set_nonempty)
qed

text \<open>With an API key, one attempt of \<open>get\<close> is one request, with \<open>hapikey\<close> added.\<close>

lemma get_once_api_key:
  assumes "truthy (api_key st)"
    and "http env (get_request url (dict_set ''hapikey'' (api_key st) params) st) (ext st) = (resp, s')"
  shows "get_once env url params st =
           (parse_and_handle_errors resp,
            (if params = [] then [] else dict_set ''hapikey'' (api_key st) params),
            st\<lparr>ext := s', trace := trace st @
              [Http (get_request url (dict_set ''hapikey'' (api_key st) params) st)]\<rparr>)"
  using assms by (simp add: get_once_def add_auth_def do_http_def)

text \<open>An attempt that succeeds is the whole call.\<close>

lemma get_first_try:
  assumes "get_once env url params st = (Inr v, p1, st1)"
  shows "get env url params st = (Inr v, p1, st1)"
  using assms by (simp add: get_def retry_after_handler_def numeral_3_eq_3)

lemma get_api_key_ok:
  assumes "truthy (api_key st)"
    and "http env (get_request url (dict_set ''hapikey'' (api_key st) params) st) (ext st) = (resp, s')"
    and "parse_and_handle_errors resp = Inr v"
  shows "get env url params st =
           (Inr v,
            (if params = [] then [] else dict_set ''hapikey'' (api_key st) params),
            st\<lparr>ext := s', trace := trace st @
              [Http (get_request url (dict_set ''hapikey'' (api_key st) params) st)]\<rparr>)"
  using get_once_api_key [OF assms(1,2)] assms(3) by (simp add: get_first_try)

text \<open>Without an entity, \<open>properties\<close> asks nothing.\<close>

lemma properties_without_entity:
  "entity cfg = None \<Longrightarrow> properties env cfg st = (Inr [], st)"
  by (simp add: properties_def)

text \<open>
  With an entity, an API key and an answer that parses, \<open>properties\<close> is one \<open>GET\<close> to
  the properties endpoint of the entity.
\<close>

lemma properties_with_entity:
  assumes "entity cfg = Some ent" and "ent \<noteq> []" and "truthy (api_key st)"
    and "http env (get_request (''/properties/v2/'' @ ent @ ''/properties'')
            [(''hapikey'', api_key st)] st) (ext st) = (resp, s')"
    and "parse_and_handle_errors resp = Inr data" and "py_iter data = Inr rows"
  shows "properties env cfg st =
           (props_loop rows [],
            st\<lparr>ext := s', trace := trace st @
              [Http (get_request (''/properties/v2/'' @ ent @ ''/properties'')
                       [(''hapikey'', api_key st)] st)]\<rparr>)"
proof -
  have "get env (''/properties/v2/'' @ ent @ ''/properties'') [] st =
          (Inr data, [],
           st\<lparr>ext := s', trace := trace st @
              [Http (get_request (''/properties/v2/'' @ ent @ ''/properties'')
                       [(''hapikey'', api_key st)] st)]\<rparr>)"
    using get_api_key_ok [OF assms(3), of env "''/properties/v2/'' @ ent @ ''/properties''" "[]" resp s' data]
      assms(4,5) by simp
  with assms(1,2,6) show ?thesis by (simp add: properties_def)
qed

text \<open>
  \<open>read\<close> is its loop, entered with no row yielded and with the default parameters
  (the limit and the joined property names) overridden by the caller's.
\<close>

lemma read_enters_loop:
  assumes "properties env cfg st = (Inr props, st0)"
    and "join_keys (map fst props) = Inr joined"
  shows "read env cfg getter params st =
           read_loop cfg getter
             (if params \<noteq> []
              then dict_merge [(''limit'', VInt (limit cfg)), (''properties'', VStr joined)] params
              else [(''limit'', VInt (limit cfg)), (''properties'', VStr joined)])
             st0 []"
  using assms by (simp add: read_def)

section \<open>The pagination engine\<close>

text \<open>
  Claim C9. When the records container \<open>data_path\<close> is absent from a response, \<open>read\<close>
  raises the \<open>RuntimeError\<close> whose message is built from the missing key and the keys
  of the response, and yields nothing from that response: the rows yielded are those of
  the pages before (\<open>acc\<close>).
\<close>

theorem read_missing_data_path:
  assumes "getter params st = (Inr (VDict response), params1, st1)"
    and "\<not> dict_has response (data_path cfg)"
  shows "read_loop cfg getter params st acc =
           Some ((acc, Raised (RuntimeError
             (Unexpected_API_response (data_path cfg) (dict_keys response)))), st1)"
  using assms by (subst read_loop.simps) (simp add: dict_has_def dict_get_def)

text \<open>
  The contacts stream against a server that answers \<open>{"status": "error"}\<close>: no row,
  and the error names \<open>results\<close> and the key \<open>status\<close>.
\<close>

theorem read_missing_data_path_witness:
  "read (constant_env 0 (json_response (VDict [(''status'', VStr ''error'')])))
     (ContactListsAPI 0)
     (get (constant_env 0 (json_response (VDict [(''status'', VStr ''error'')]))) contacts_url)
     [] (api_key_state ()) =
   Some (([], Raised (RuntimeError (Unexpected_API_response ''results'' [''status'']))),
         (api_key_state ())\<lparr>trace :=
           [Http (get_request contacts_url
              [(''limit'', VInt 100), (''properties'', VStr []), (''hapikey'', VStr ''k'')]
              (api_key_state ()))]\<rparr>)"
proof -
  let ?env = "constant_env 0 (json_response (VDict [(''status'', VStr ''error'')]))"
  let ?p = "[(''limit'', VInt 100), (''properties'', VStr [])]"
  let ?st1 = "(api_key_state ())\<lparr>trace :=
           [Http (get_request contacts_url
              [(''limit'', VInt 100), (''properties'', VStr []), (''hapikey'', VStr ''k'')]
              (api_key_state ()))]\<rparr>"
  have call: "get ?env contacts_url ?p (api_key_state ()) =
      (Inr (VDict [(''status'', VStr ''error'')]), ?p @ [(''hapikey'', VStr ''k'')], ?st1)"
    by (simp add: run_defs)
  have absent: "\<not> dict_has [(''status'', VStr ''error'')] (data_path (ContactListsAPI 0))"
    by (simp add: run_defs)
  have "read ?env (ContactListsAPI 0) (get ?env contacts_url) [] (api_key_state ()) =
          read_loop (ContactListsAPI 0) (get ?env contacts_url) ?p (api_key_state ()) []"
    by (simp add: read_def properties_def ContactListsAPI_def StreamAPI_def)
  also have "\<dots> = Some (([], Raised (RuntimeError (Unexpected_API_response
                (data_path (ContactListsAPI 0)) (dict_keys [(''status'', VStr ''error'')])))), ?st1)"
    by (rule read_missing_data_path
          [where getter = "get ?env contacts_url" and params = ?p and st = "api_key_state ()",
           OF call absent])
  finally show ?thesis by (simp add: run_defs)
qed

text \<open>
  Claim C8. Under the legacy protocol (no \<open>paging\<close> in the response), when the "more"
  flag is false or absent, \<open>read\<close> ends after the rows of that page, whether or not the
  continuation field is in the response.
\<close>

theorem read_stops_when_more_flag_false:
  assumes "getter params st = (Inr (VDict response), params1, st1)"
    and "py_iter (dict_get response (data_path cfg)) = Inr rows"
    and "\<not> dict_has response ''paging''"
    and "\<not> truthy (more_flag cfg response)"
  shows "read_loop cfg getter params st acc = Some ((acc @ rows, Exhausted), st1)"
proof -
  from assms(2) have "dict_get response (data_path cfg) \<noteq> VNone" by auto
  moreover from assms(3,4) have "pagination cfg response params1 = Inr None"
    by (simp add: pagination_def)
  ultimately show ?thesis using assms(1,2) by (subst read_loop.simps) simp
qed

text \<open>
  The email events stream against a server whose page has \<open>hasMore\<close> false and an
  \<open>offset\<close>: one request, the row of the page, then the end.
\<close>

theorem read_stops_when_more_flag_false_witness:
  "read (constant_env 0 (json_response (VDict last_page))) (EmailEventsAPI 0)
     (get (constant_env 0 (json_response (VDict last_page))) ''/email/public/v1/events'')
     [] (api_key_state ()) =
   Some (([VStr ''b''], Exhausted), (api_key_state ())\<lparr>trace := [Http events_request]\<rparr>)"
proof -
  let ?env = "constant_env 0 (json_response (VDict last_page))"
  let ?p = "[(''limit'', VInt 1000), (''properties'', VStr [])]"
  have call: "get ?env ''/email/public/v1/events'' ?p (api_key_state ()) =
      (Inr (VDict last_page), ?p @ [(''hapikey'', VStr ''k'')],
       (api_key_state ())\<lparr>trace := [Http events_request]\<rparr>)"
    by (simp add: run_defs events_request_def)
  have rows: "py_iter (dict_get last_page (data_path (EmailEventsAPI 0))) = Inr [VStr ''b'']"
    by (simp add: run_defs last_page_def)
  have legacy: "\<not> dict_has last_page ''paging''"
    by (simp add: run_defs last_page_def)
  have flag: "\<not> truthy (more_flag (EmailEventsAPI 0) last_page)"
    by (simp add: run_defs last_page_def)
  have "read ?env (EmailEventsAPI 0) (get ?env ''/email/public/v1/events'') [] (api_key_state ()) =
          read_loop (EmailEventsAPI 0) (get ?env ''/email/public/v1/events'') ?p (api_key_state ()) []"
    by (simp add: read_def properties_def EmailEventsAPI_def StreamAPI_def)
  also have "\<dots> = Some (([] @ [VStr ''b''], Exhausted),
                 (api_key_state ())\<lparr>trace := [Http events_request]\<rparr>)"
    by (rule read_stops_when_more_flag_false
          [where getter = "get ?env ''/email/public/v1/events''" and params = ?p
             and st = "api_key_state ()", OF call rows legacy flag])
  finally show ?thesis by simp
qed




text \<open>
  Against a getter that gives such a response every time and leaves the parameters and
  the state alone, the loop never returns.
\<close>

lemma read_loop_never_returns:
  assumes always: "\<And>p s. getter p s = (Inr (VDict response), p, s)"
    and rows: "py_iter (dict_get response (data_path cfg)) = Inr rows"
    and legacy: "\<not> dict_has response ''paging''"
    and flag: "truthy (more_flag cfg response)"
    and absent: "\<not> dict_has response (page_field cfg)"
  shows "read_loop cfg getter params st acc = None"
proof (cases "read_loop cfg getter params st acc")
  case None
  then show ?thesis .
next
  case (Some y)
  have "cfg' = cfg \<longrightarrow> getter' = getter \<longrightarrow> False"
    if "read_loop cfg' getter' params st acc = Some y" for cfg' getter'
    using that
  proof (induction rule: read_loop.raw_induct [rotated 1, consumes 1])
    case (1 f cfg' getter' params st acc y)
    show ?case
    proof (intro impI)
      assume same: "cfg' = cfg" "getter' = getter"
      from rows have "dict_get response (data_path cfg) \<noteq> VNone" by auto
      moreover from legacy flag absent have "pagination cfg response params = Inr (Some params)"
        by (simp add: pagination_def)
      ultimately have "f cfg getter params st (acc @ rows) = Some y"
        using 1(2) same always rows by simp
      with 1(1) show False by blast
    qed
  qed
  with Some show ?thesis by blast
qed



text \<open>
  Claim C3, as the code has it. A cursor stream (\<open>data_path\<close> \<open>results\<close>, no
  \<open>more_key\<close>) read with an API key: \<open>read\<close> first evaluates \<open>self.properties\<close>; then
  the first request of the endpoint gets \<open>{results: [a, b], paging: {next: {after: X}}}\<close>
  and the second, with \<open>after=X\<close>, gets \<open>{results: [c]}\<close>. \<open>read\<close> yields exactly
  \<open>[a, b, c]\<close> and, after \<open>properties\<close>, sends exactly these two requests. Without an
  entity \<open>properties\<close> sends nothing (\<open>properties_without_entity\<close>), so the two requests
  are all the HTTP calls; with an entity it sends one more \<open>GET\<close> before them.
\<close>

theorem read_two_cursor_pages:
  assumes props: "properties env cfg st = (Inr props, st0)"
    and joined: "join_keys (map fst props) = Inr joined"
    and key: "truthy (api_key st0)"
    and cursor: "data_path cfg = ''results''" "more_key cfg = None"
    and p0: "p0 = dict_set ''hapikey'' (api_key st0)
               (if params \<noteq> []
                then dict_merge [(''limit'', VInt (limit cfg)), (''properties'', VStr joined)] params
                else [(''limit'', VInt (limit cfg)), (''properties'', VStr joined)])"
    and first: "http env (get_request url p0 st0) (ext st0) = (resp1, s1)"
      "parse_and_handle_errors resp1 =
         Inr (VDict [(''results'', VList [a, b]),
                     (''paging'', VDict [(''next'', VDict [(''after'', VStr X)])])])"
    and second: "http env (get_request url (dict_set ''after'' (VStr X) p0) st0) s1 = (resp2, s2)"
      "parse_and_handle_errors resp2 = Inr (VDict [(''results'', VList [c])])"
  shows "read env cfg (get env url) params st =
           Some (([a, b, c], Exhausted),
                 st0\<lparr>ext := s2, trace := trace st0 @
                   [Http (get_request url p0 st0),
                    Http (get_request url (dict_set ''after'' (VStr X) p0) st0)]\<rparr>)"
proof -
  define q where "q = (if params \<noteq> []
                then dict_merge [(''limit'', VInt (limit cfg)), (''properties'', VStr joined)] params
                else [(''limit'', VInt (limit cfg)), (''properties'', VStr joined)])"
  define st1 where "st1 = st0\<lparr>ext := s1, trace := trace st0 @ [Http (get_request url p0 st0)]\<rparr>"
  define P1 where "P1 = dict_set ''after'' (VStr X) p0"
  have p0q: "p0 = dict_set ''hapikey'' (api_key st0) q" by (simp add: p0 q_def)
  have qne: "q \<noteq> []"
    by (simp add: q_def dict_merge_nonempty)
  have g1: "get env url q st0 = (Inr (VDict [(''results'', VList [a, b]),
                     (''paging'', VDict [(''next'', VDict [(''after'', VStr X)])])]), p0, st1)"
    using get_api_key_ok [OF key, of env url q resp1 s1] first qne by (simp add: p0q st1_def)
  have key1: "truthy (api_key st1)" "api_key st1 = api_key st0"
    using key by (simp_all add: st1_def api_key_def)
  have same: "dict_set ''hapikey'' (api_key st1) (dict_set ''after'' (VStr X) p0) =
                dict_set ''after'' (VStr X) p0"
    by (rule dict_set_same) (simp add: key1 p0q map_of_dict_set)
  have h2: "http env (get_request url (dict_set ''hapikey'' (api_key st1) P1) st1) (ext st1) =
              (resp2, s2)"
    unfolding P1_def same using second(1) by (simp add: st1_def get_request_def)
  have g2: "get env url P1 st1 =
              (Inr (VDict [(''results'', VList [c])]), P1,
               st1\<lparr>ext := s2, trace := trace st1 @ [Http (get_request url P1 st0)]\<rparr>)"
    using get_api_key_ok [OF key1(1) h2 second(2)] same
    by (simp add: P1_def dict_set_nonempty get_request_def st1_def)
  have l2: "read_loop cfg (get env url) P1 st1 [a, b] =
              Some (([a, b, c], Exhausted),
                st1\<lparr>ext := s2, trace := trace st1 @ [Http (get_request url P1 st0)]\<rparr>)"
    by (subst read_loop.simps)
      (simp add: g2 cursor dict_get_def dict_has_def pagination_def more_flag_def)
  have l1: "read_loop cfg (get env url) q st0 [] = read_loop cfg (get env url) P1 st1 [a, b]"
    by (subst read_loop.simps)
      (simp add: g1 cursor dict_get_def dict_has_def pagination_def dict_item_def P1_def)
  have "read env cfg (get env url) params st = read_loop cfg (get env url) q st0 []"
    using props joined by (simp add: read_def q_def)
  also note l1
  also note l2
  finally show ?thesis by (simp add: st1_def P1_def)
qed

text \<open>
  The stream of the contact lists has no entity: against the contacts server the run is
  the two requests of the endpoint and nothing else.
\<close>

theorem read_two_cursor_pages_witness:
  "read contacts_env (ContactListsAPI 0) (get contacts_env contacts_url)
     [(''archived'', VStr ''false'')] (api_key_state ()) =
   Some (([VStr ''a'', VStr ''b'', VStr ''c''], Exhausted),
         (api_key_state ())\<lparr>trace :=
           [Http (get_request contacts_url
              [(''limit'', VInt 100), (''properties'', VStr []), (''archived'', VStr ''false''),
               (''hapikey'', VStr ''k'')] (api_key_state ())),
            Http (get_request contacts_url
              [(''limit'', VInt 100), (''properties'', VStr []), (''archived'', VStr ''false''),
               (''hapikey'', VStr ''k''), (''after'', VStr ''X'')] (api_key_state ()))]\<rparr>)"
proof -
  let ?p0 = "[(''limit'', VInt 100), (''properties'', VStr []), (''archived'', VStr ''false''),
               (''hapikey'', VStr ''k'')]"
  have props: "properties contacts_env (ContactListsAPI 0) (api_key_state ()) =
                 (Inr [], api_key_state ())"
    by (rule properties_without_entity) (simp add: ContactListsAPI_def StreamAPI_def)
  have joined: "join_keys (map fst ([] :: (val \<times> val) list)) = Inr []" by simp
  have key: "truthy (api_key (api_key_state ()))" by (simp add: api_key_def api_key_state_def dict_get_def)
  have cursor: "data_path (ContactListsAPI 0) = ''results''" "more_key (ContactListsAPI 0) = None"
    by (simp_all add: ContactListsAPI_def StreamAPI_def)
  have p0: "?p0 = dict_set ''hapikey'' (api_key (api_key_state ()))
               (if [(''archived'', VStr ''false'')] \<noteq> []
                then dict_merge [(''limit'', VInt (limit (ContactListsAPI 0))), (''properties'', VStr [])]
                       [(''archived'', VStr ''false'')]
                else [(''limit'', VInt (limit (ContactListsAPI 0))), (''properties'', VStr [])])"
    by (simp add: run_defs)
  have first: "http contacts_env (get_request contacts_url ?p0 (api_key_state ())) (ext (api_key_state ())) =
                 (json_response (VDict page_one), ())"
    by (simp add: contacts_env_def get_request_def BASE_URL_def contacts_url_def dict_get_def)
  have one: "parse_and_handle_errors (json_response (VDict page_one)) =
         Inr (VDict [(''results'', VList [VStr ''a'', VStr ''b'']),
                     (''paging'', VDict [(''next'', VDict [(''after'', VStr ''X'')])])])"
    by (simp add: parse_and_handle_errors_def json_response_def page_one_def)
  have second: "http contacts_env (get_request contacts_url (dict_set ''after'' (VStr ''X'') ?p0)
                  (api_key_state ())) () = (json_response (VDict page_two), ())"
    by (simp add: contacts_env_def get_request_def BASE_URL_def contacts_url_def dict_get_def)
  have two: "parse_and_handle_errors (json_response (VDict page_two)) =
               Inr (VDict [(''results'', VList [VStr ''c''])])"
    by (simp add: parse_and_handle_errors_def json_response_def page_two_def)
  show ?thesis
    using read_two_cursor_pages [OF props joined key cursor p0 first one second two]
    by (simp add: api_key_state_def)
qed

text \<open>
  The claim as it was stated (exactly two HTTP calls) fails for the stream of the
  contacts, whose entity is \<open>contact\<close>: the same two pages, the same three rows, and
  three HTTP calls, the first to the properties endpoint.
\<close>

theorem read_two_cursor_pages_counterexample:
  "run_urls
     (read contacts_env (ContactsAPI 0) (get contacts_env contacts_url)
        [(''archived'', VStr ''false'')] (api_key_state ())) =
   Some (([VStr ''a'', VStr ''b'', VStr ''c''], Exhausted),
         [''https://api.hubapi.com/properties/v2/contact/properties'',
          ''https://api.hubapi.com/crm/v3/objects/contacts'',
          ''https://api.hubapi.com/crm/v3/objects/contacts''])"
  by (simp add: run_urls_def run_defs read_loop.simps contacts_env_def contacts_url_def
      page_one_def page_two_def)

section \<open>The time-chunked reader\<close>







section \<open>The backoff controller\<close>

text \<open>One turn of the retry loop: a rate-limited attempt with an integer header.\<close>

lemma on_exception_retry:
  assumes "target params st = (Inl (HubspotRateLimited resp), p1, st1)"
    and "retry_after_header resp = Some (RA_Int n)" and "0 \<le> n + 1"
  shows "on_exception env (Suc k) target params st =
           on_exception env k target p1 (after_backoff env n st1)"
  using assms
  by (simp add: sleep_on_ratelimit_def time_sleep_def do_log_def after_backoff_def)

lemma on_exception_giveup:
  assumes "target params st = (Inl (HubspotRateLimited resp), p1, st1)"
  shows "on_exception env 0 target params st =
           (Inl (HubspotRateLimited resp), p1, log_giveup st1)"
  using assms by simp


lemma on_exception_other_error:
  assumes "target params st = (Inl e, p1, st1)" and "\<forall>resp. e \<noteq> HubspotRateLimited resp"
  shows "on_exception env k target params st = (Inl e, p1, st1)"
  using assms by (cases k; cases e) simp_all



text \<open>
  Three rate-limited attempts, the first two with an integer \<open>Retry-After\<close>: \<open>get\<close>
  gives up with the third \<open>HubspotRateLimited\<close> and makes no fourth attempt.
\<close>

lemma get_gives_up_after_three_attempts:
  assumes "get_once env url params st = (Inl (HubspotRateLimited resp1), p1, st1)"
    and "retry_after_header resp1 = Some (RA_Int r1)" and "0 \<le> r1 + 1"
    and "get_once env url p1 (after_backoff env r1 st1) = (Inl (HubspotRateLimited resp2), p2, st2)"
    and "retry_after_header resp2 = Some (RA_Int r2)" and "0 \<le> r2 + 1"
    and "get_once env url p2 (after_backoff env r2 st2) = (Inl (HubspotRateLimited resp3), p3, st3)"
  shows "get env url params st = (Inl (HubspotRateLimited resp3), p3, log_giveup st3)"
proof -
  have "get env url params st = on_exception env 2 (get_once env url) params st"
    by (simp add: get_def retry_after_handler_def)
  also have "\<dots> = on_exception env 1 (get_once env url) p1 (after_backoff env r1 st1)"
    using on_exception_retry [where target = "get_once env url" and k = 1, OF assms(1,2,3)]
    by (simp add: numeral_2_eq_2)
  also have "\<dots> = on_exception env 0 (get_once env url) p2 (after_backoff env r2 st2)"
    using on_exception_retry [where target = "get_once env url" and k = 0, OF assms(4,5,6)]
    by simp
  also have "\<dots> = (Inl (HubspotRateLimited resp3), p3, log_giveup st3)"
    using assms(7) by (rule on_exception_giveup)
  finally show ?thesis .
qed

text \<open>Any other failure of an attempt is the failure of \<open>get\<close>, at once.\<close>

lemma get_other_failure_propagates:
  assumes "get_once env url params st = (Inl e, p1, st1)" and "\<forall>resp. e \<noteq> HubspotRateLimited resp"
  shows "get env url params st = (Inl e, p1, st1)"
  using assms by (simp add: get_def retry_after_handler_def on_exception_other_error)

text \<open>
  A server that always answers 429 with \<open>Retry-After: 1\<close>: three requests, two sleeps
  of 2 seconds, then the error.
\<close>

lemma get_rate_limited_with_header:
  "get (constant_env 0 (error_response 429 (Some (RA_Int 1)))) contacts_url
     [(''limit'', VInt 100)] (api_key_state ()) =
   (Inl (HubspotRateLimited (error_response 429 (Some (RA_Int 1)))),
    [(''limit'', VInt 100), (''hapikey'', VStr ''k'')],
    (api_key_state ())\<lparr>trace :=
       [Http limit_request, Log (Rate_limit_sleeping 1), Sleep 2, Sleep 0,
        Http limit_request, Log (Rate_limit_sleeping 1), Sleep 2, Sleep 0,
        Http limit_request, Log Max_retry_limit_reached]\<rparr>)"
  by (simp add: run_defs limit_request_def contacts_url_def)

text \<open>
  Claim C6 fails on the code when the 429 responses carry no \<open>Retry-After\<close> header:
  \<open>sleep_on_ratelimit\<close> reads \<open>headers["Retry-After"]\<close>, so \<open>get\<close> fails after one
  request, with a \<open>KeyError\<close> and not with the rate-limit error.
\<close>

theorem get_rate_limited_without_header:
  "get (constant_env 0 (error_response 429 None)) contacts_url
     [(''limit'', VInt 100)] (api_key_state ()) =
   (Inl (KeyError ''Retry-After''),
    [(''limit'', VInt 100), (''hapikey'', VStr ''k'')],
    (api_key_state ())\<lparr>trace := [Http limit_request]\<rparr>)"
  by (simp add: run_defs limit_request_def contacts_url_def)

section \<open>POST\<close>

lemma sleeps_append: "sleeps (xs @ ys) = sleeps xs @ sleeps ys"
  by (induction xs rule: sleeps.induct) simp_all


lemma store_auth_sleeps: "sleeps (trace (snd (store_auth env auth st))) = sleeps (trace st)"
  by (simp add: store_auth_def do_log_def Let_def sleeps_append split: sum.splits)

lemma acquire_sleeps:
  "sleeps (trace (snd (acquire_access_token_from_refresh_token env st))) = sleeps (trace st)"
proof (cases "refresh_payload (credentials st)")
  case (Inl e)
  then show ?thesis by (simp add: acquire_access_token_from_refresh_token_def)
next
  case (Inr payload)
  obtain resp s1 where sent: "http env (token_request payload) (ext st) = (resp, s1)"
    by (cases "http env (token_request payload) (ext st)")
  define st1 where "st1 = st\<lparr>ext := s1, trace := trace st @ [Http (token_request payload)]\<rparr>"
  have st1: "sleeps (trace st1) = sleeps (trace st)"
    by (simp add: st1_def sleeps_append)
  have "sleeps (trace (snd (store_auth env auth st1))) = sleeps (trace st)" for auth
    by (simp add: store_auth_sleeps st1)
  with Inr sent st1 show ?thesis
    by (simp add: acquire_access_token_from_refresh_token_def do_http_def st1_def [symmetric]
        split: option.splits)
qed

lemma access_token_sleeps: "sleeps (trace (snd (access_token env st))) = sleeps (trace st)"
proof -
  have "sleeps (trace st1) = sleeps (trace st)"
    if "acquire_access_token_from_refresh_token env st = (r, st1)" for r st1
    using acquire_sleeps [of env st] that by simp
  then show ?thesis
    by (simp add: access_token_def split: sum.splits prod.splits bool.splits)
qed

lemma add_auth_sleeps: "sleeps (trace (snd (add_auth env params st))) = sleeps (trace st)"
proof -
  have "sleeps (trace st1) = sleeps (trace st)" if "access_token env st = (r, st1)" for r st1
    using access_token_sleeps [of env st] that by simp
  then show ?thesis
    by (simp add: add_auth_def split: sum.splits prod.splits)
qed

lemma post_sleeps: "sleeps (trace (snd (snd (post env url data params st)))) = sleeps (trace st)"
proof -
  have "sleeps (trace st1) = sleeps (trace st)" if "add_auth env params st = (r, st1)" for r st1
    using add_auth_sleeps [of env params st] that by simp
  then show ?thesis
    by (simp add: post_def do_http_def sleeps_append split: sum.splits prod.splits)
qed

text \<open>
  Claim C10. A 429 on a \<open>POST\<close> is raised at once: after the auth, \<open>post\<close> sends the one
  request, raises \<open>HubspotRateLimited\<close> and does nothing more; and no call of \<open>post\<close>,
  whatever its outcome, sleeps.
\<close>

theorem post_rate_limited_propagates:
  assumes "add_auth env params st = (Inr p, st1)"
    and "http env (post_request url data p st1) (ext st1) = (resp, s2)"
    and "status_code resp = 429"
  shows "post env url data params st =
           (Inl (HubspotRateLimited resp), (if params = [] then params else p),
            st1\<lparr>ext := s2, trace := trace st1 @ [Http (post_request url data p st1)]\<rparr>)
         \<and> sleeps (trace (snd (snd (post env url data params st)))) = sleeps (trace st)"
proof -
  have "post env url data params st =
           (Inl (HubspotRateLimited resp), (if params = [] then params else p),
            st1\<lparr>ext := s2, trace := trace st1 @ [Http (post_request url data p st1)]\<rparr>)"
    unfolding post_def assms(1)
    by (simp add: do_http_def assms(2,3) parse_and_handle_errors_def)
  moreover have "sleeps (trace (snd (snd (post env url data params st)))) = sleeps (trace st)"
    by (rule post_sleeps)
  ultimately show ?thesis by (rule conjI)
qed

text \<open>
  A server that always answers 429: one \<open>POST\<close> in the trace, no sleep, and the
  rate-limit error.
\<close>

theorem post_rate_limited_propagates_witness:
  "post (constant_env 0 (error_response 429 (Some (RA_Int 1)))) contacts_url (VDict [])
     [(''limit'', VInt 100)] (api_key_state ()) =
   (Inl (HubspotRateLimited (error_response 429 (Some (RA_Int 1)))),
    [(''limit'', VInt 100), (''hapikey'', VStr ''k'')],
    (api_key_state ())\<lparr>trace := [Http limit_post]\<rparr>)"
proof -
  let ?env = "constant_env 0 (error_response 429 (Some (RA_Int 1)))"
  let ?p = "[(''limit'', VInt 100), (''hapikey'', VStr ''k'')]"
  have auth: "add_auth ?env [(''limit'', VInt 100)] (api_key_state ()) = (Inr ?p, api_key_state ())"
    by (simp add: run_defs)
  have sent: "http ?env (post_request contacts_url (VDict []) ?p (api_key_state ()))
                (ext (api_key_state ())) = (error_response 429 (Some (RA_Int 1)), ())"
    by (simp add: constant_env_def)
  have status: "status_code (error_response 429 (Some (RA_Int 1))) = 429"
    by (simp add: error_response_def)
  from post_rate_limited_propagates [OF auth sent status]
  have "post ?env contacts_url (VDict []) [(''limit'', VInt 100)] (api_key_state ()) =
          (Inl (HubspotRateLimited (error_response 429 (Some (RA_Int 1)))),
           (if [(''limit'', VInt 100)] = [] then [(''limit'', VInt 100)] else ?p),
           (api_key_state ())\<lparr>ext := (), trace := trace (api_key_state ()) @
              [Http (post_request contacts_url (VDict []) ?p (api_key_state ()))]\<rparr>)"
    by (rule conjunct1)
  then show ?thesis
    by (simp add: post_request_def limit_post_def api_key_state_def BASE_URL_def contacts_url_def)
qed

section \<open>The credential store\<close>






end
